theory Spec2Isabelle
  imports Complex_Main
begin

section \<open>Numbers written into the timeline\<close>

text \<open>
  The page script computes the three segment percentages with JavaScript's \<^verbatim>\<open>/\<close>, whose
  result on a zero divisor is \<^verbatim>\<open>Infinity\<close>, \<^verbatim>\<open>-Infinity\<close> or \<^verbatim>\<open>NaN\<close>.  Frames and loop
  bounds are integers (the script floors what the player reports, and the configuration
  lists integer literals), so a quotient is an exact fraction or one of the three special
  values.  Rounding of finite quotients is not modelled: the clamp \<^verbatim>\<open>Math.min(100,
  Math.max(0, x))\<close> returns one of its arguments, so a clamped finite value lies between 0
  and 100 whatever the rounding.
\<close>

datatype jsnum = Num real | PosInf | NegInf | NaN

definition js_div :: "int \<Rightarrow> int \<Rightarrow> jsnum" where
  "js_div a b =
     (if b \<noteq> 0 then Num (real_of_int a / real_of_int b)
      else if 0 < a then PosInf
      else if a < 0 then NegInf
      else NaN)"

fun js_times100 :: "jsnum \<Rightarrow> jsnum" where
  "js_times100 (Num x) = Num (x * 100)"
| "js_times100 PosInf = PosInf"
| "js_times100 NegInf = NegInf"
| "js_times100 NaN = NaN"

text \<open>\<^verbatim>\<open>Math.max(0, x)\<close> and \<^verbatim>\<open>Math.min(100, x)\<close>: both return \<^verbatim>\<open>NaN\<close> when an argument is.\<close>

fun js_max0 :: "jsnum \<Rightarrow> jsnum" where
  "js_max0 (Num x) = Num (max 0 x)"
| "js_max0 PosInf = PosInf"
| "js_max0 NegInf = Num 0"
| "js_max0 NaN = NaN"

fun js_min100 :: "jsnum \<Rightarrow> jsnum" where
  "js_min100 (Num x) = Num (min 100 x)"
| "js_min100 PosInf = Num 100"
| "js_min100 NegInf = NegInf"
| "js_min100 NaN = NaN"

definition clampPercent :: "jsnum \<Rightarrow> jsnum" where
  "clampPercent x = js_min100 (js_max0 x)"

fun inUnitPercent :: "jsnum \<Rightarrow> bool" where
  "inUnitPercent (Num x) = (0 \<le> x \<and> x \<le> 100)"
| "inUnitPercent PosInf = False"
| "inUnitPercent NegInf = False"
| "inUnitPercent NaN = False"

section \<open>The player handle\<close>

text \<open>
  A callback is a function object; \<^verbatim>\<open>this.onEnterFrame.bind(this)\<close> makes a new one at
  every evaluation.  \<open>FnRef n\<close> is the \<open>n\<close>-th function object made from
  \<^verbatim>\<open>onEnterFrame\<close> by a card; two references are the same callback exactly when they are
  equal.
\<close>

datatype cbref = FnRef nat

datatype call =
    GoToAndPlay int
  | GoToAndStop int
  | Play
  | Pause
  | AddEnterFrame cbref
  | RemoveEnterFrame cbref
  | Destroy
  | LoadAnimation string

record engine =
  currentFrame :: real
  isPaused :: bool
  animTotalFrames :: real
  enterFrameCallbacks :: "cbref list"

text \<open>
  Modelled from the spec: the player (\<^verbatim>\<open>lottie.loadAnimation\<close> and the handle it returns) is
  a third-party library that is not part of the sources.  Its contract is taken from the
  interface section of the specification (seek-and-play, seek-and-stop, play, pause, the
  paused flag, frame-event subscription).  The specification gives the handle no duty to
  look for duplicates and makes the single subscription an invariant of the card, so a
  subscription adds an entry to the handle's list whatever the list holds already;
  removing a reference removes the entries equal to it.
\<close>

definition eng_loadAnimation :: engine where
  "eng_loadAnimation =
     \<lparr>currentFrame = 0, isPaused = True, animTotalFrames = 0, enterFrameCallbacks = []\<rparr>"

definition eng_goToAndPlay :: "int \<Rightarrow> engine \<Rightarrow> engine" where
  "eng_goToAndPlay v e = e\<lparr>currentFrame := real_of_int v, isPaused := False\<rparr>"

definition eng_goToAndStop :: "int \<Rightarrow> engine \<Rightarrow> engine" where
  "eng_goToAndStop v e = e\<lparr>currentFrame := real_of_int v, isPaused := True\<rparr>"

definition eng_play :: "engine \<Rightarrow> engine" where
  "eng_play e = e\<lparr>isPaused := False\<rparr>"

definition eng_pause :: "engine \<Rightarrow> engine" where
  "eng_pause e = e\<lparr>isPaused := True\<rparr>"

definition eng_addEventListener :: "cbref \<Rightarrow> engine \<Rightarrow> engine" where
  "eng_addEventListener r e = e\<lparr>enterFrameCallbacks := enterFrameCallbacks e @ [r]\<rparr>"

definition eng_removeEventListener :: "cbref \<Rightarrow> engine \<Rightarrow> engine" where
  "eng_removeEventListener r e =
     e\<lparr>enterFrameCallbacks := filter (\<lambda>c. c \<noteq> r) (enterFrameCallbacks e)\<rparr>"

section \<open>Configuration and card state\<close>

record animationData =
  fileName :: string
  declaredType :: "string option"
  loopFrames :: "(int \<times> int) option"

datatype segment = Intro | LoopSeg | Outro

datatype framenum = NumStart | NumLoopStart | NumLoopEnd | NumEnd

text \<open>
  What \<^verbatim>\<open>buildTimeline\<close> writes: the four frame-number texts, the three segment widths and
  the marker and label positions.  \<open>None\<close> is an element the script has not written yet.
\<close>

record timeline_layout =
  numStartText :: "int option"
  numLoopStartText :: "int option"
  numLoopEndText :: "int option"
  numEndText :: "int option"
  segIntroWidth :: "real option"
  segLoopWidth :: "real option"
  segOutroWidth :: "real option"
  markerStartLeft :: "real option"
  markerEndLeft :: "real option"
  numLoopStartLeft :: "real option"
  numLoopEndLeft :: "real option"

text \<open>
  What \<^verbatim>\<open>updateTimelineUI\<close> and \<^verbatim>\<open>resetTimeline\<close> write.  The elements looked up by
  \<^verbatim>\<open>cacheDomElements\<close> come from the card template and are taken to exist, so every
  \<^verbatim>\<open>if (element)\<close> and \<^verbatim>\<open>?.\<close> guard passes.  A width is the number placed before the
  \<^verbatim>\<open>%\<close> sign; the \<^verbatim>\<open>active\<close> class of the labels, segments and frame numbers is the set of
  elements carrying it.
\<close>

record ui =
  frameCounter :: "int option"
  playheadLeft :: "real option"
  playheadVisible :: "bool option"
  progressFull :: "real option"
  progressIntro :: "jsnum option"
  progressLoop :: "jsnum option"
  progressOutro :: "jsnum option"
  activeLabels :: "segment set"
  activeSegments :: "segment set"
  activeFrameNums :: "framenum set"
  layout :: timeline_layout

text \<open>
  The fields every revision of \<^verbatim>\<open>LottieCard\<close> has.  A value of this type is a card
  after its constructor has returned, so \<open>lottieAnimation\<close> is a handle: the constructor
  assigns it before it returns and nothing sets it back to \<^verbatim>\<open>null\<close>.  Two fields are not
  in the source: \<open>calls\<close> lists the calls the card has made on its handles, in order, and
  \<open>nextRef\<close> numbers the function objects made from \<^verbatim>\<open>onEnterFrame\<close>.
\<close>

record card_base =
  animationData :: animationData
  animationType :: string
  loopStartFrame :: int
  loopEndFrame :: int
  lottieAnimation :: engine
  totalFrames :: int
  isHovering :: bool
  isOutroLocked :: bool
  playingClass :: bool
  ui :: ui
  calls :: "call list"
  nextRef :: nat

text \<open>The second revision (declared kinds, theme toggle): the class starting at line 518.\<close>

record card = card_base +
  isLooping :: bool
  isLightMode :: bool
  lightModeClass :: bool

text \<open>The third revision adds the callback bound once in the constructor (line 1060).\<close>

record card_fixed = card +
  boundOnEnterFrame :: cbref

text \<open>The first revision (file-name kinds, freeze points): the class starting at line 38.\<close>

record card_hex = card_base +
  isFrozen :: bool
  frozenStateClass :: bool

subsection \<open>Calls on the handle\<close>

definition goToAndPlay :: "int \<Rightarrow> 'a card_base_scheme \<Rightarrow> 'a card_base_scheme" where
  "goToAndPlay v s =
     s\<lparr>lottieAnimation := eng_goToAndPlay v (lottieAnimation s),
       calls := calls s @ [GoToAndPlay v]\<rparr>"

definition goToAndStop :: "int \<Rightarrow> 'a card_base_scheme \<Rightarrow> 'a card_base_scheme" where
  "goToAndStop v s =
     s\<lparr>lottieAnimation := eng_goToAndStop v (lottieAnimation s),
       calls := calls s @ [GoToAndStop v]\<rparr>"

definition play :: "'a card_base_scheme \<Rightarrow> 'a card_base_scheme" where
  "play s = s\<lparr>lottieAnimation := eng_play (lottieAnimation s), calls := calls s @ [Play]\<rparr>"

definition pause :: "'a card_base_scheme \<Rightarrow> 'a card_base_scheme" where
  "pause s = s\<lparr>lottieAnimation := eng_pause (lottieAnimation s), calls := calls s @ [Pause]\<rparr>"

definition addEnterFrame :: "cbref \<Rightarrow> 'a card_base_scheme \<Rightarrow> 'a card_base_scheme" where
  "addEnterFrame r s =
     s\<lparr>lottieAnimation := eng_addEventListener r (lottieAnimation s),
       calls := calls s @ [AddEnterFrame r]\<rparr>"

definition removeEnterFrame :: "cbref \<Rightarrow> 'a card_base_scheme \<Rightarrow> 'a card_base_scheme" where
  "removeEnterFrame r s =
     s\<lparr>lottieAnimation := eng_removeEventListener r (lottieAnimation s),
       calls := calls s @ [RemoveEnterFrame r]\<rparr>"

text \<open>\<^verbatim>\<open>this.onEnterFrame.bind(this)\<close>: a new function object.\<close>

definition bindOnEnterFrame :: "'a card_base_scheme \<Rightarrow> cbref \<times> 'a card_base_scheme" where
  "bindOnEnterFrame s = (FnRef (nextRef s), s\<lparr>nextRef := Suc (nextRef s)\<rparr>)"

subsection \<open>Timeline\<close>

text \<open>\<^verbatim>\<open>buildTimeline\<close> (lines 611 and 1118; the two revisions have the same body).\<close>

definition buildTimeline :: "'a card_scheme \<Rightarrow> 'a card_scheme" where
  "buildTimeline s =
     (if totalFrames s = 0 then s
      else if isLooping s then
        (let introPercent =
               (real_of_int (loopStartFrame s) / real_of_int (totalFrames s)) * 100;
             loopPercent =
               (real_of_int (loopEndFrame s - loopStartFrame s) / real_of_int (totalFrames s)) * 100;
             outroPercent = 100 - introPercent - loopPercent
         in s\<lparr>ui := (ui s)\<lparr>layout :=
              \<lparr>numStartText = Some 0,
               numLoopStartText = Some (loopStartFrame s),
               numLoopEndText = Some (loopEndFrame s),
               numEndText = Some (totalFrames s),
               segIntroWidth = Some introPercent,
               segLoopWidth = Some loopPercent,
               segOutroWidth = Some outroPercent,
               markerStartLeft = Some introPercent,
               markerEndLeft = Some (introPercent + loopPercent),
               numLoopStartLeft = Some introPercent,
               numLoopEndLeft = Some (introPercent + loopPercent)\<rparr>\<rparr>\<rparr>)
      else
        s\<lparr>ui := (ui s)\<lparr>layout :=
             (layout (ui s))\<lparr>numStartText := Some 0, numEndText := Some (totalFrames s)\<rparr>\<rparr>\<rparr>)"

text \<open>
  \<^verbatim>\<open>updateTimelineUI(currentFrame, isPlaying)\<close> (lines 802 and 1289).  The frame counter
  is written first; the test of \<^verbatim>\<open>totalFrames\<close> comes after it.
\<close>

definition updateTimelineUI :: "int \<Rightarrow> bool \<Rightarrow> 'a card_scheme \<Rightarrow> 'a card_scheme" where
  "updateTimelineUI cf playing s =
     (let u0 = (ui s)\<lparr>frameCounter := Some cf\<rparr> in
      if totalFrames s = 0 then s\<lparr>ui := u0\<rparr>
      else
        (let totalProgressPercent = (real_of_int cf / real_of_int (totalFrames s)) * 100;
             u1 = u0\<lparr>playheadLeft := Some totalProgressPercent,
                     playheadVisible := Some playing\<rparr>
         in if isLooping s then
              (let introProgress = js_times100 (js_div cf (loopStartFrame s));
                   loopProgress =
                     js_times100 (js_div (cf - loopStartFrame s)
                                         (loopEndFrame s - loopStartFrame s));
                   outroProgress =
                     js_times100 (js_div (cf - loopEndFrame s)
                                         (totalFrames s - loopEndFrame s));
                   u2 = u1\<lparr>progressIntro := Some (clampPercent introProgress),
                           progressLoop := Some (clampPercent loopProgress),
                           progressOutro := Some (clampPercent outroProgress),
                           activeLabels := {},
                           activeSegments := {},
                           activeFrameNums := {}\<rparr>
               in if \<not> playing then s\<lparr>ui := u2\<rparr>
                  else if cf < loopStartFrame s then
                    s\<lparr>ui := u2\<lparr>activeLabels := insert Intro (activeLabels u2),
                                activeSegments := insert Intro (activeSegments u2),
                                activeFrameNums := insert NumStart (activeFrameNums u2)\<rparr>\<rparr>
                  else if loopStartFrame s \<le> cf \<and> cf \<le> loopEndFrame s then
                    s\<lparr>ui := u2\<lparr>activeLabels := insert LoopSeg (activeLabels u2),
                                activeSegments := insert LoopSeg (activeSegments u2),
                                activeFrameNums :=
                                  insert NumLoopEnd (insert NumLoopStart (activeFrameNums u2))\<rparr>\<rparr>
                  else
                    s\<lparr>ui := u2\<lparr>activeLabels := insert Outro (activeLabels u2),
                                activeSegments := insert Outro (activeSegments u2),
                                activeFrameNums := insert NumEnd (activeFrameNums u2)\<rparr>\<rparr>)
            else s\<lparr>ui := u1\<lparr>progressFull := Some totalProgressPercent\<rparr>\<rparr>))"

text \<open>\<^verbatim>\<open>resetTimeline\<close> (lines 791 and 1278).\<close>

definition resetTimeline :: "'a card_scheme \<Rightarrow> 'a card_scheme" where
  "resetTimeline s =
     updateTimelineUI 0 False
       (if isLooping s then
          s\<lparr>ui := (ui s)\<lparr>progressIntro := Some (Num 0),
                          progressLoop := Some (Num 0),
                          progressOutro := Some (Num 0)\<rparr>\<rparr>
        else s\<lparr>ui := (ui s)\<lparr>progressFull := Some 0\<rparr>\<rparr>)"

subsection \<open>Construction and loading\<close>

text \<open>
  \<^verbatim>\<open>parseAnimationProps\<close> (lines 552 and 1068): the four fields it assigns, in the order
  \<^verbatim>\<open>animationType\<close>, \<^verbatim>\<open>isLooping\<close>, \<^verbatim>\<open>loopStartFrame\<close>, \<^verbatim>\<open>loopEndFrame\<close>.  A missing or empty
  declared type is falsy and becomes \<^verbatim>\<open>'playOnce'\<close>.
\<close>

definition parseAnimationProps :: "animationData \<Rightarrow> string \<times> bool \<times> int \<times> int" where
  "parseAnimationProps d =
     (let ty = (case declaredType d of
                  None \<Rightarrow> ''playOnce''
                | Some t \<Rightarrow> if t = [] then ''playOnce'' else t);
          looping = (ty = ''loop'')
      in case (looping, loopFrames d) of
           (True, Some (a, b)) \<Rightarrow> (ty, looping, a, b)
         | _ \<Rightarrow> (ty, looping, 0, 0))"

definition ui_initial :: ui where
  "ui_initial =
     \<lparr>frameCounter = None, playheadLeft = None, playheadVisible = None, progressFull = None,
      progressIntro = None, progressLoop = None, progressOutro = None,
      activeLabels = {}, activeSegments = {}, activeFrameNums = {},
      layout = \<lparr>numStartText = None, numLoopStartText = None, numLoopEndText = None,
                numEndText = None, segIntroWidth = None, segLoopWidth = None,
                segOutroWidth = None, markerStartLeft = None, markerEndLeft = None,
                numLoopStartLeft = None, numLoopEndLeft = None\<rparr>\<rparr>"

definition themePath :: "bool \<Rightarrow> animationData \<Rightarrow> string" where
  "themePath isLight d =
     ''Lotties/'' @ (if isLight then ''Black'' else ''White'') @ ''/'' @ fileName d"

text \<open>
  \<^verbatim>\<open>loadAnimationForTheme\<close> on a constructed card (lines 658 and 1154): the old handle is
  destroyed and a new one loaded, paused at frame 0 and with no frame subscription.
\<close>

definition loadAnimationForTheme :: "bool \<Rightarrow> 'a card_scheme \<Rightarrow> 'a card_scheme" where
  "loadAnimationForTheme isLight s =
     s\<lparr>lottieAnimation := eng_loadAnimation,
       calls := calls s @ [Destroy, LoadAnimation (themePath isLight (animationData s))]\<rparr>"

text \<open>
  The constructor of the third revision (line 1047).  The callback is bound once, before
  anything else uses it; the first load finds \<^verbatim>\<open>lottieAnimation\<close> null and destroys nothing.
\<close>

definition new_card :: "animationData \<Rightarrow> card_fixed" where
  "new_card d =
     (case parseAnimationProps d of (ty, looping, ls, le) \<Rightarrow>
        \<lparr>animationData = d, animationType = ty, loopStartFrame = ls, loopEndFrame = le,
         lottieAnimation = eng_loadAnimation, totalFrames = 0, isHovering = False,
         isOutroLocked = False, playingClass = False, ui = ui_initial,
         calls = [LoadAnimation (themePath False d)], nextRef = 1,
         isLooping = looping, isLightMode = False, lightModeClass = False,
         boundOnEnterFrame = FnRef 0\<rparr>)"

text \<open>The constructor of the second revision (line 523): no callback is bound.\<close>

definition new_card_intermediate :: "animationData \<Rightarrow> card" where
  "new_card_intermediate d =
     (case parseAnimationProps d of (ty, looping, ls, le) \<Rightarrow>
        \<lparr>animationData = d, animationType = ty, loopStartFrame = ls, loopEndFrame = le,
         lottieAnimation = eng_loadAnimation, totalFrames = 0, isHovering = False,
         isOutroLocked = False, playingClass = False, ui = ui_initial,
         calls = [LoadAnimation (themePath False d)], nextRef = 0,
         isLooping = looping, isLightMode = False, lightModeClass = False\<rparr>)"

subsection \<open>Handlers shared by the second and third revisions\<close>

text \<open>\<^verbatim>\<open>onDOMLoaded\<close> (lines 680 and 1174).\<close>

definition onDOMLoaded :: "'a card_scheme \<Rightarrow> 'a card_scheme" where
  "onDOMLoaded s =
     resetTimeline (buildTimeline (goToAndStop 0
       (s\<lparr>totalFrames := \<lfloor>animTotalFrames (lottieAnimation s)\<rfloor>\<rparr>)))"

text \<open>\<^verbatim>\<open>onEnterFrame\<close> (lines 687 and 1181).\<close>

definition onEnterFrame :: "'a card_scheme \<Rightarrow> 'a card_scheme" where
  "onEnterFrame s =
     (if totalFrames s = 0 then s
      else
        (let cf = \<lfloor>currentFrame (lottieAnimation s)\<rfloor>;
             s1 = updateTimelineUI cf True s
         in if isLooping s1 then
              (if isOutroLocked s1 then s1
               else if isHovering s1 then
                 (if loopEndFrame s1 \<le> cf then goToAndPlay (loopStartFrame s1) s1 else s1)
               else
                 (if loopStartFrame s1 \<le> cf then s1\<lparr>isOutroLocked := True\<rparr> else s1))
            else s1))"

text \<open>\<^verbatim>\<open>onThemeChange\<close> (lines 774 and 1265); the argument is the state of the toggle.\<close>

definition onThemeChange :: "bool \<Rightarrow> 'a card_scheme \<Rightarrow> 'a card_scheme" where
  "onThemeChange checked s =
     loadAnimationForTheme checked (s\<lparr>isLightMode := checked, lightModeClass := checked\<rparr>)"

subsection \<open>Handlers of the third revision\<close>

text \<open>\<^verbatim>\<open>onComplete\<close> (line 1204).\<close>

definition onComplete :: "'a card_fixed_scheme \<Rightarrow> 'a card_fixed_scheme" where
  "onComplete s =
     (let s1 = removeEnterFrame (boundOnEnterFrame s) s in
      if animationType s1 = ''playAndHold'' then
        (updateTimelineUI (totalFrames s1) False (pause s1))\<lparr>playingClass := False\<rparr>
      else
        (let s2 = resetTimeline (s1\<lparr>isOutroLocked := False\<rparr>) in
         if isHovering s2 then
           updateTimelineUI 0 True
             (goToAndPlay 0 (addEnterFrame (boundOnEnterFrame s2) s2))
         else (goToAndStop 0 s2)\<lparr>playingClass := False\<rparr>))"

text \<open>\<^verbatim>\<open>onHoverStart\<close> (line 1228).\<close>

definition onHoverStart :: "'a card_fixed_scheme \<Rightarrow> 'a card_fixed_scheme" where
  "onHoverStart s =
     (let s1 = addEnterFrame (boundOnEnterFrame s) (s\<lparr>isHovering := True, playingClass := True\<rparr>);
          cf = \<lfloor>currentFrame (lottieAnimation s1)\<rfloor>;
          s2 = (if isPaused (lottieAnimation s1) then
                  updateTimelineUI 0 True (goToAndPlay 0 (s1\<lparr>isOutroLocked := False\<rparr>))
                else if isLooping s1 \<and> isOutroLocked s1 \<and> cf \<le> loopEndFrame s1 then
                  s1\<lparr>isOutroLocked := False\<rparr>
                else s1)
      in play s2)"

text \<open>\<^verbatim>\<open>onHoverEnd\<close> (line 1249).\<close>

definition onHoverEnd :: "'a card_fixed_scheme \<Rightarrow> 'a card_fixed_scheme" where
  "onHoverEnd s =
     (let s1 = s\<lparr>isHovering := False\<rparr>;
          s2 = (if animationType s1 = ''playAndHold'' then
                  resetTimeline (goToAndStop 0
                    (removeEnterFrame (boundOnEnterFrame s1) (s1\<lparr>isOutroLocked := False\<rparr>)))
                else play s1)
      in s2\<lparr>playingClass := False\<rparr>)"

subsection \<open>Handlers of the second revision\<close>

text \<open>
  \<^verbatim>\<open>onComplete\<close>, \<^verbatim>\<open>onHoverStart\<close> and \<^verbatim>\<open>onHoverEnd\<close> of the second revision (lines 711, 737
  and 757): each subscription and each removal evaluates \<^verbatim>\<open>this.onEnterFrame.bind(this)\<close>
  anew.
\<close>

definition onComplete_intermediate :: "'a card_scheme \<Rightarrow> 'a card_scheme" where
  "onComplete_intermediate s =
     (case bindOnEnterFrame s of (r1, sa) \<Rightarrow>
        (let s1 = removeEnterFrame r1 sa in
         if animationType s1 = ''playAndHold'' then
           (updateTimelineUI (totalFrames s1) False (pause s1))\<lparr>playingClass := False\<rparr>
         else
           (let s2 = resetTimeline (s1\<lparr>isOutroLocked := False\<rparr>) in
            if isHovering s2 then
              (case bindOnEnterFrame s2 of (r2, sb) \<Rightarrow>
                 updateTimelineUI 0 True (goToAndPlay 0 (addEnterFrame r2 sb)))
            else (goToAndStop 0 s2)\<lparr>playingClass := False\<rparr>)))"

definition onHoverStart_intermediate :: "'a card_scheme \<Rightarrow> 'a card_scheme" where
  "onHoverStart_intermediate s =
     (case bindOnEnterFrame (s\<lparr>isHovering := True, playingClass := True\<rparr>) of (r, sa) \<Rightarrow>
        (let s1 = addEnterFrame r sa;
             cf = \<lfloor>currentFrame (lottieAnimation s1)\<rfloor>;
             s2 = (if isPaused (lottieAnimation s1) then
                     updateTimelineUI 0 True (goToAndPlay 0 (s1\<lparr>isOutroLocked := False\<rparr>))
                   else if isLooping s1 \<and> isOutroLocked s1 \<and> cf \<le> loopEndFrame s1 then
                     s1\<lparr>isOutroLocked := False\<rparr>
                   else s1)
         in play s2))"

definition onHoverEnd_intermediate :: "'a card_scheme \<Rightarrow> 'a card_scheme" where
  "onHoverEnd_intermediate s =
     (let s1 = s\<lparr>isHovering := False\<rparr>;
          s2 = (if animationType s1 = ''playAndHold'' then
                  (case bindOnEnterFrame (s1\<lparr>isOutroLocked := False\<rparr>) of (r, sa) \<Rightarrow>
                     resetTimeline (goToAndStop 0 (removeEnterFrame r sa)))
                else play s1)
      in s2\<lparr>playingClass := False\<rparr>)"

subsection \<open>Events\<close>

text \<open>
  Modelled from the spec: the player reports a frame by setting its current frame and
  calling every subscribed frame callback once, in subscription order; every callback a
  card subscribes is a bound \<^verbatim>\<open>onEnterFrame\<close>.  \<open>frameAdvanced\<close> is one such call,
  \<open>fireEnterFrame\<close> the whole report.  The load notification carries the player's frame
  count.
\<close>

definition setFrame :: "real \<Rightarrow> 'a card_base_scheme \<Rightarrow> 'a card_base_scheme" where
  "setFrame f s = s\<lparr>lottieAnimation := (lottieAnimation s)\<lparr>currentFrame := f\<rparr>\<rparr>"

definition frameAdvanced :: "real \<Rightarrow> 'a card_scheme \<Rightarrow> 'a card_scheme" where
  "frameAdvanced f s = onEnterFrame (setFrame f s)"

definition fireEnterFrame :: "real \<Rightarrow> 'a card_scheme \<Rightarrow> 'a card_scheme" where
  "fireEnterFrame f s =
     (onEnterFrame ^^ length (enterFrameCallbacks (lottieAnimation s))) (setFrame f s)"

definition loadReady :: "real \<Rightarrow> 'a card_scheme \<Rightarrow> 'a card_scheme" where
  "loadReady n s =
     onDOMLoaded (s\<lparr>lottieAnimation := (lottieAnimation s)\<lparr>animTotalFrames := n\<rparr>\<rparr>)"

fun advanceFrames :: "'a card_scheme \<Rightarrow> real list \<Rightarrow> 'a card_scheme" where
  "advanceFrames s [] = s"
| "advanceFrames s (f # fs) = advanceFrames (frameAdvanced f s) fs"

datatype event =
    HoverStart
  | HoverEnd
  | FrameAdvanced real
  | PlaybackComplete
  | LoadReady real
  | ThemeChange bool

fun step :: "event \<Rightarrow> card_fixed \<Rightarrow> card_fixed" where
  "step HoverStart s = onHoverStart s"
| "step HoverEnd s = onHoverEnd s"
| "step (FrameAdvanced f) s = fireEnterFrame f s"
| "step PlaybackComplete s = onComplete s"
| "step (LoadReady n) s = loadReady n s"
| "step (ThemeChange b) s = onThemeChange b s"

fun run :: "card_fixed \<Rightarrow> event list \<Rightarrow> card_fixed" where
  "run s [] = s"
| "run s (e # es) = run (step e s) es"

fun step_intermediate :: "event \<Rightarrow> card \<Rightarrow> card" where
  "step_intermediate HoverStart s = onHoverStart_intermediate s"
| "step_intermediate HoverEnd s = onHoverEnd_intermediate s"
| "step_intermediate (FrameAdvanced f) s = fireEnterFrame f s"
| "step_intermediate PlaybackComplete s = onComplete_intermediate s"
| "step_intermediate (LoadReady n) s = loadReady n s"
| "step_intermediate (ThemeChange b) s = onThemeChange b s"

fun run_intermediate :: "card \<Rightarrow> event list \<Rightarrow> card" where
  "run_intermediate s [] = s"
| "run_intermediate s (e # es) = run_intermediate (step_intermediate e s) es"

text \<open>The subscriptions and removals among the calls a card has made.\<close>

fun isEnterFrameCall :: "call \<Rightarrow> bool" where
  "isEnterFrameCall (AddEnterFrame r) = True"
| "isEnterFrameCall (RemoveEnterFrame r) = True"
| "isEnterFrameCall c = False"

fun callRef :: "call \<Rightarrow> cbref option" where
  "callRef (AddEnterFrame r) = Some r"
| "callRef (RemoveEnterFrame r) = Some r"
| "callRef c = None"

subsection \<open>The first revision's hover-out handler\<close>

text \<open>
  \<^verbatim>\<open>onHoverEnd\<close> of the first revision (line 286).  Only this handler of that revision is
  embedded: \<open>isFrozen\<close> is the flag its \<^verbatim>\<open>onEnterFrame\<close> sets when a hovered freeze clip
  reaches its freeze frame and pauses.
\<close>

definition onHoverEnd_hex :: "'a card_hex_scheme \<Rightarrow> 'a card_hex_scheme" where
  "onHoverEnd_hex s =
     (if animationType s = ''continuous'' then s
      else
        (let s1 = s\<lparr>isHovering := False\<rparr>;
             s2 = (if animationType s1 = ''freeze'' then
                     (if isFrozen s1 then
                        play (s1\<lparr>isFrozen := False, frozenStateClass := False\<rparr>)
                      else s1)
                   else if animationType s1 \<noteq> ''loop'' then play s1
                   else s1)
         in s2\<lparr>playingClass := False\<rparr>))"

subsection \<open>Properties of states\<close>

text \<open>A loop session: the declared kind is \<^verbatim>\<open>'loop'\<close>, so \<^verbatim>\<open>isLooping\<close> is set.\<close>

definition loopKind :: "'a card_scheme \<Rightarrow> bool" where
  "loopKind s = (isLooping s \<and> animationType s = ''loop'')"

text \<open>
  The events that are neither a completion nor a hover start at or before the loop end:
  a reported frame, a hover end, and a hover start that finds the player playing at a
  frame past the loop end.  \<open>lockKeeping s es\<close> says that every event of \<open>es\<close>, delivered
  in turn from \<open>s\<close>, is one of these.
\<close>

fun keepsLock :: "card_fixed \<Rightarrow> event \<Rightarrow> bool" where
  "keepsLock s (FrameAdvanced f) = True"
| "keepsLock s HoverEnd = True"
| "keepsLock s HoverStart =
     (\<not> isPaused (lottieAnimation s) \<and>
      loopEndFrame s < \<lfloor>currentFrame (lottieAnimation s)\<rfloor>)"
| "keepsLock s PlaybackComplete = False"
| "keepsLock s (LoadReady n) = False"
| "keepsLock s (ThemeChange b) = False"

fun lockKeeping :: "card_fixed \<Rightarrow> event list \<Rightarrow> bool" where
  "lockKeeping s [] = True"
| "lockKeeping s (e # es) = (keepsLock s e \<and> lockKeeping (step e s) es)"

text \<open>Every subscription and removal in a list of calls names the reference \<open>r\<close>.\<close>

definition callsUseOnly :: "cbref \<Rightarrow> call list \<Rightarrow> bool" where
  "callsUseOnly r cs = list_all (\<lambda>c. callRef c = None \<or> callRef c = Some r) cs"

subsection \<open>Configurations and sessions used as examples\<close>

text \<open>Entries of \<^verbatim>\<open>ANIMATION_SECTIONS\<close> (lines 470, 986 and 1037).\<close>

definition idleCfg :: animationData where
  "idleCfg = \<lparr>fileName = ''idle.json'', declaredType = Some ''playOnce'', loopFrames = None\<rparr>"

definition shapesCfg :: animationData where
  "shapesCfg =
     \<lparr>fileName = ''Loop-24-71 Shapes Suck In.json'', declaredType = Some ''loop'',
      loopFrames = Some (24, 71)\<rparr>"

definition buildInCfg :: animationData where
  "buildInCfg =
     \<lparr>fileName = ''Build In.json'', declaredType = Some ''playAndHold'', loopFrames = None\<rparr>"

text \<open>
  Loop configurations the page does not list but the constructor accepts: a loop that
  starts at frame 0, a loop kind with no \<^verbatim>\<open>loopFrames\<close>, and bounds in the wrong order.
\<close>

definition loopFromZeroCfg :: animationData where
  "loopFromZeroCfg =
     \<lparr>fileName = ''Loop-0-50.json'', declaredType = Some ''loop'', loopFrames = Some (0, 50)\<rparr>"

definition loopNoBoundsCfg :: animationData where
  "loopNoBoundsCfg =
     \<lparr>fileName = ''Loop.json'', declaredType = Some ''loop'', loopFrames = None\<rparr>"

definition reversedCfg :: animationData where
  "reversedCfg =
     \<lparr>fileName = ''Loop-71-24.json'', declaredType = Some ''loop'', loopFrames = Some (71, 24)\<rparr>"

text \<open>
  A freeze card of the first revision, hovered and playing at frame 10, ahead of the
  freeze frame 25 its file name declares.
\<close>

definition freezeCard :: card_hex where
  "freezeCard =
     \<lparr>animationData =
        \<lparr>fileName = ''From Center Simple Freeze-25 .json'', declaredType = None,
         loopFrames = None\<rparr>,
      animationType = ''freeze'', loopStartFrame = 0, loopEndFrame = 0,
      lottieAnimation =
        \<lparr>currentFrame = 10, isPaused = False, animTotalFrames = 60,
         enterFrameCallbacks = [FnRef 0]\<rparr>,
      totalFrames = 60, isHovering = True, isOutroLocked = False, playingClass = True,
      ui = ui_initial,
      calls = [LoadAnimation ''Lotties/From Center Simple Freeze-25 .json'', GoToAndStop 0,
               AddEnterFrame (FnRef 0), GoToAndPlay 0, Play],
      nextRef = 1, isFrozen = False, frozenStateClass = False\<rparr>"

section \<open>Facts about the handlers\<close>

text \<open>
  The timeline functions write the \<open>ui\<close> field only, and no handler changes the bound
  callback, the kind or the loop bounds of a card.
\<close>

lemmas engine_defs = eng_loadAnimation_def eng_goToAndPlay_def eng_goToAndStop_def eng_play_def
  eng_pause_def eng_addEventListener_def eng_removeEventListener_def

lemmas call_defs = goToAndPlay_def goToAndStop_def play_def pause_def addEnterFrame_def
  removeEnterFrame_def

lemma updateTimelineUI_fields [simp]:
  "animationData (updateTimelineUI cf p s) = animationData s"
  "animationType (updateTimelineUI cf p s) = animationType s"
  "loopStartFrame (updateTimelineUI cf p s) = loopStartFrame s"
  "loopEndFrame (updateTimelineUI cf p s) = loopEndFrame s"
  "lottieAnimation (updateTimelineUI cf p s) = lottieAnimation s"
  "totalFrames (updateTimelineUI cf p s) = totalFrames s"
  "isHovering (updateTimelineUI cf p s) = isHovering s"
  "isOutroLocked (updateTimelineUI cf p s) = isOutroLocked s"
  "playingClass (updateTimelineUI cf p s) = playingClass s"
  "calls (updateTimelineUI cf p s) = calls s"
  "nextRef (updateTimelineUI cf p s) = nextRef s"
  "isLooping (updateTimelineUI cf p s) = isLooping s"
  "isLightMode (updateTimelineUI cf p s) = isLightMode s"
  "lightModeClass (updateTimelineUI cf p s) = lightModeClass s"
  "card.more (updateTimelineUI cf p s) = card.more s"
  by (simp_all add: updateTimelineUI_def Let_def)

lemma updateTimelineUI_bound [simp]:
  "boundOnEnterFrame (updateTimelineUI cf p s) = boundOnEnterFrame s"
  by (simp add: updateTimelineUI_def Let_def)

lemma resetTimeline_fields [simp]:
  "animationData (resetTimeline s) = animationData s"
  "animationType (resetTimeline s) = animationType s"
  "loopStartFrame (resetTimeline s) = loopStartFrame s"
  "loopEndFrame (resetTimeline s) = loopEndFrame s"
  "lottieAnimation (resetTimeline s) = lottieAnimation s"
  "totalFrames (resetTimeline s) = totalFrames s"
  "isHovering (resetTimeline s) = isHovering s"
  "isOutroLocked (resetTimeline s) = isOutroLocked s"
  "playingClass (resetTimeline s) = playingClass s"
  "calls (resetTimeline s) = calls s"
  "nextRef (resetTimeline s) = nextRef s"
  "isLooping (resetTimeline s) = isLooping s"
  "isLightMode (resetTimeline s) = isLightMode s"
  "lightModeClass (resetTimeline s) = lightModeClass s"
  "card.more (resetTimeline s) = card.more s"
  by (simp_all add: resetTimeline_def)

lemma resetTimeline_bound [simp]:
  "boundOnEnterFrame (resetTimeline s) = boundOnEnterFrame s"
  by (simp add: resetTimeline_def)

lemma buildTimeline_fields [simp]:
  "animationData (buildTimeline s) = animationData s"
  "animationType (buildTimeline s) = animationType s"
  "loopStartFrame (buildTimeline s) = loopStartFrame s"
  "loopEndFrame (buildTimeline s) = loopEndFrame s"
  "lottieAnimation (buildTimeline s) = lottieAnimation s"
  "totalFrames (buildTimeline s) = totalFrames s"
  "isHovering (buildTimeline s) = isHovering s"
  "isOutroLocked (buildTimeline s) = isOutroLocked s"
  "playingClass (buildTimeline s) = playingClass s"
  "calls (buildTimeline s) = calls s"
  "nextRef (buildTimeline s) = nextRef s"
  "isLooping (buildTimeline s) = isLooping s"
  "isLightMode (buildTimeline s) = isLightMode s"
  "lightModeClass (buildTimeline s) = lightModeClass s"
  "card.more (buildTimeline s) = card.more s"
  by (simp_all add: buildTimeline_def Let_def)

lemma buildTimeline_bound [simp]:
  "boundOnEnterFrame (buildTimeline s) = boundOnEnterFrame s"
  by (simp add: buildTimeline_def Let_def)

lemma onEnterFrame_callbacks [simp]:
  "enterFrameCallbacks (lottieAnimation (onEnterFrame s)) = enterFrameCallbacks (lottieAnimation s)"
  by (simp add: onEnterFrame_def Let_def call_defs engine_defs)

lemma onEnterFrame_bound [simp]:
  "boundOnEnterFrame (onEnterFrame s) = boundOnEnterFrame s"
  by (simp add: onEnterFrame_def Let_def call_defs)

lemma onEnterFrame_pow_callbacks [simp]:
  "enterFrameCallbacks (lottieAnimation ((onEnterFrame ^^ n) s)) = enterFrameCallbacks (lottieAnimation s)"
  by (induction n) simp_all

lemma onEnterFrame_pow_bound [simp]:
  "boundOnEnterFrame ((onEnterFrame ^^ n) s) = boundOnEnterFrame s"
  by (induction n) simp_all

lemma onHoverStart_bound [simp]: "boundOnEnterFrame (onHoverStart s) = boundOnEnterFrame s"
  by (simp add: onHoverStart_def Let_def call_defs)

lemma onHoverEnd_bound [simp]: "boundOnEnterFrame (onHoverEnd s) = boundOnEnterFrame s"
  by (simp add: onHoverEnd_def Let_def call_defs)

lemma onComplete_bound [simp]: "boundOnEnterFrame (onComplete s) = boundOnEnterFrame s"
  by (simp add: onComplete_def Let_def call_defs)

lemma loadReady_bound [simp]: "boundOnEnterFrame (loadReady n s) = boundOnEnterFrame s"
  by (simp add: loadReady_def onDOMLoaded_def Let_def call_defs)

lemma onThemeChange_bound [simp]: "boundOnEnterFrame (onThemeChange b s) = boundOnEnterFrame s"
  by (simp add: onThemeChange_def loadAnimationForTheme_def)

lemma fireEnterFrame_bound [simp]: "boundOnEnterFrame (fireEnterFrame f s) = boundOnEnterFrame s"
  by (simp add: fireEnterFrame_def setFrame_def)

lemma step_bound [simp]: "boundOnEnterFrame (step e s) = boundOnEnterFrame s"
  by (cases e) simp_all

lemma run_bound [simp]: "boundOnEnterFrame (run s es) = boundOnEnterFrame s"
  by (induction es arbitrary: s) simp_all

lemma new_card_bound [simp]: "boundOnEnterFrame (new_card d) = FnRef 0"
  by (simp add: new_card_def split: prod.splits)

text \<open>A frame reported to a handle with one subscription is one call of the callback.\<close>

lemma fireEnterFrame_single:
  "enterFrameCallbacks (lottieAnimation s) = [c] \<Longrightarrow> fireEnterFrame f s = frameAdvanced f s"
  by (simp add: fireEnterFrame_def frameAdvanced_def)

lemma setFrame_fields [simp]:
  "animationType (setFrame f s) = animationType s"
  "loopStartFrame (setFrame f s) = loopStartFrame s"
  "loopEndFrame (setFrame f s) = loopEndFrame s"
  "totalFrames (setFrame f s) = totalFrames s"
  "isHovering (setFrame f s) = isHovering s"
  "isOutroLocked (setFrame f s) = isOutroLocked s"
  "calls (setFrame f s) = calls s"
  "isLooping (setFrame f s) = isLooping s"
  "lottieAnimation (setFrame f s) = (lottieAnimation s)\<lparr>currentFrame := f\<rparr>"
  by (simp_all add: setFrame_def)

lemma frameAdvanced_static [simp]:
  "animationType (frameAdvanced f s) = animationType s"
  "isLooping (frameAdvanced f s) = isLooping s"
  "loopStartFrame (frameAdvanced f s) = loopStartFrame s"
  "loopEndFrame (frameAdvanced f s) = loopEndFrame s"
  "totalFrames (frameAdvanced f s) = totalFrames s"
  by (simp_all add: frameAdvanced_def onEnterFrame_def Let_def call_defs)

lemma onEnterFrame_static [simp]:
  "animationType (onEnterFrame s) = animationType s"
  "isLooping (onEnterFrame s) = isLooping s"
  "loopStartFrame (onEnterFrame s) = loopStartFrame s"
  "loopEndFrame (onEnterFrame s) = loopEndFrame s"
  by (simp_all add: onEnterFrame_def Let_def call_defs)

lemma onEnterFrame_pow_static [simp]:
  "animationType ((onEnterFrame ^^ n) s) = animationType s"
  "isLooping ((onEnterFrame ^^ n) s) = isLooping s"
  "loopStartFrame ((onEnterFrame ^^ n) s) = loopStartFrame s"
  "loopEndFrame ((onEnterFrame ^^ n) s) = loopEndFrame s"
  by (induction n) simp_all

lemma fireEnterFrame_static [simp]:
  "animationType (fireEnterFrame f s) = animationType s"
  "isLooping (fireEnterFrame f s) = isLooping s"
  "loopStartFrame (fireEnterFrame f s) = loopStartFrame s"
  "loopEndFrame (fireEnterFrame f s) = loopEndFrame s"
  by (simp_all add: fireEnterFrame_def setFrame_def)

lemma onHoverStart_static [simp]:
  "animationType (onHoverStart s) = animationType s"
  "isLooping (onHoverStart s) = isLooping s"
  "loopStartFrame (onHoverStart s) = loopStartFrame s"
  "loopEndFrame (onHoverStart s) = loopEndFrame s"
  by (simp_all add: onHoverStart_def Let_def call_defs)

lemma onHoverEnd_static [simp]:
  "animationType (onHoverEnd s) = animationType s"
  "isLooping (onHoverEnd s) = isLooping s"
  "loopStartFrame (onHoverEnd s) = loopStartFrame s"
  "loopEndFrame (onHoverEnd s) = loopEndFrame s"
  by (simp_all add: onHoverEnd_def Let_def call_defs)

lemma onComplete_static [simp]:
  "animationType (onComplete s) = animationType s"
  "isLooping (onComplete s) = isLooping s"
  "loopStartFrame (onComplete s) = loopStartFrame s"
  "loopEndFrame (onComplete s) = loopEndFrame s"
  by (simp_all add: onComplete_def Let_def call_defs)

lemma loadReady_static [simp]:
  "animationType (loadReady n s) = animationType s"
  "isLooping (loadReady n s) = isLooping s"
  "loopStartFrame (loadReady n s) = loopStartFrame s"
  "loopEndFrame (loadReady n s) = loopEndFrame s"
  by (simp_all add: loadReady_def onDOMLoaded_def call_defs)

lemma onThemeChange_static [simp]:
  "animationType (onThemeChange b s) = animationType s"
  "isLooping (onThemeChange b s) = isLooping s"
  "loopStartFrame (onThemeChange b s) = loopStartFrame s"
  "loopEndFrame (onThemeChange b s) = loopEndFrame s"
  by (simp_all add: onThemeChange_def loadAnimationForTheme_def)

lemma step_static [simp]:
  "animationType (step e s) = animationType s"
  "isLooping (step e s) = isLooping s"
  "loopStartFrame (step e s) = loopStartFrame s"
  "loopEndFrame (step e s) = loopEndFrame s"
  by (cases e; simp)+

lemma run_static [simp]:
  "animationType (run s es) = animationType s"
  "isLooping (run s es) = isLooping s"
  "loopStartFrame (run s es) = loopStartFrame s"
  "loopEndFrame (run s es) = loopEndFrame s"
  by (induction es arbitrary: s) simp_all

section \<open>The claims\<close>

subsection \<open>One callback reference\<close>

text \<open>
  The third revision keeps to one reference: whatever events a card receives, every
  subscription and every removal it issues names the callback bound in its constructor.
\<close>

lemma callsUseOnly_append [simp]:
  "callsUseOnly r (xs @ ys) = (callsUseOnly r xs \<and> callsUseOnly r ys)"
  by (simp add: callsUseOnly_def)

lemma onEnterFrame_callsUseOnly:
  "callsUseOnly r (calls (onEnterFrame s)) = callsUseOnly r (calls s)"
  by (simp add: onEnterFrame_def Let_def call_defs callsUseOnly_def)

lemma onEnterFrame_pow_callsUseOnly:
  "callsUseOnly r (calls ((onEnterFrame ^^ n) s)) = callsUseOnly r (calls s)"
  by (induction n) (simp_all add: onEnterFrame_callsUseOnly)

lemma step_callsUseOnly:
  assumes "callsUseOnly (boundOnEnterFrame s) (calls s)"
  shows "callsUseOnly (boundOnEnterFrame s) (calls (step e s))"
proof (cases e)
  case HoverStart
  with assms show ?thesis
    by (simp add: onHoverStart_def Let_def call_defs callsUseOnly_def)
next
  case HoverEnd
  with assms show ?thesis
    by (simp add: onHoverEnd_def Let_def call_defs callsUseOnly_def)
next
  case (FrameAdvanced f)
  with assms show ?thesis
    by (simp add: fireEnterFrame_def onEnterFrame_pow_callsUseOnly setFrame_def)
next
  case PlaybackComplete
  with assms show ?thesis
    by (simp add: onComplete_def Let_def call_defs callsUseOnly_def)
next
  case (LoadReady n)
  with assms show ?thesis
    by (simp add: loadReady_def onDOMLoaded_def call_defs callsUseOnly_def)
next
  case (ThemeChange b)
  with assms show ?thesis
    by (simp add: onThemeChange_def loadAnimationForTheme_def callsUseOnly_def)
qed

lemma run_callsUseOnly:
  "callsUseOnly (boundOnEnterFrame s) (calls s) \<Longrightarrow>
   callsUseOnly (boundOnEnterFrame s) (calls (run s es))"
proof (induction es arbitrary: s)
  case Nil
  then show ?case by simp
next
  case (Cons e es)
  have "callsUseOnly (boundOnEnterFrame (step e s)) (calls (step e s))"
    using step_callsUseOnly [OF Cons.prems] by simp
  from Cons.IH [OF this] show ?case by simp
qed

lemma fixed_revision_uses_one_reference:
  "callsUseOnly (FnRef 0) (calls (run (new_card d) es))"
proof -
  have "callsUseOnly (boundOnEnterFrame (new_card d)) (calls (new_card d))"
    by (simp add: new_card_def callsUseOnly_def split: prod.splits)
  from run_callsUseOnly [OF this] show ?thesis by simp
qed

text \<open>
  Claim C1.  Every subscription and every removal of the frame callback, over the whole
  life of any card, is to use the one reference bound at construction.  The second
  revision does not: an idle clip that is loaded, hovered and then completes under the
  pointer subscribes one function object, asks for the removal of a second one, which was
  never subscribed, and subscribes a third.  The first subscription is never removed, and
  two callbacks are left on the handle.
\<close>

theorem intermediate_revision_detaches_fresh_reference:
  "filter isEnterFrameCall
     (calls (run_intermediate (new_card_intermediate idleCfg)
               [LoadReady 100, HoverStart, PlaybackComplete])) =
     [AddEnterFrame (FnRef 0), RemoveEnterFrame (FnRef 1), AddEnterFrame (FnRef 2)] \<and>
   enterFrameCallbacks
     (lottieAnimation (run_intermediate (new_card_intermediate idleCfg)
               [LoadReady 100, HoverStart, PlaybackComplete])) = [FnRef 0, FnRef 2]"
  by code_simp

subsection \<open>One subscription after two hover starts\<close>

text \<open>
  Claim C2.  Two hover starts in a row are to leave exactly one frame subscription, so
  that a reported frame runs \<^verbatim>\<open>onEnterFrame\<close> once.  In the third revision
  \<^verbatim>\<open>onHoverStart\<close> subscribes the bound callback at every call and tests nothing before
  it; the comment at line 1233 leaves the duplicate to the handle.  On a handle that adds
  what it is given, the idle clip, loaded and hovered twice, holds the bound callback
  twice, and a reported frame runs \<^verbatim>\<open>onEnterFrame\<close> twice.  The same holds when the
  pointer leaves and comes back before the clip completes, since a hover end removes
  nothing for this kind.
\<close>

theorem double_hoverStart_two_subscriptions:
  "enterFrameCallbacks
     (lottieAnimation (run (new_card idleCfg) [LoadReady 100, HoverStart, HoverStart])) =
     [FnRef 0, FnRef 0] \<and>
   fireEnterFrame 10 (run (new_card idleCfg) [LoadReady 100, HoverStart, HoverStart]) =
     onEnterFrame (onEnterFrame
       (setFrame 10 (run (new_card idleCfg) [LoadReady 100, HoverStart, HoverStart]))) \<and>
   enterFrameCallbacks
     (lottieAnimation
        (run (new_card idleCfg) [LoadReady 100, HoverStart, HoverEnd, HoverStart])) =
     [FnRef 0, FnRef 0]"
proof -
  let ?s = "run (new_card idleCfg) [LoadReady 100, HoverStart, HoverStart]"
  have twice: "enterFrameCallbacks (lottieAnimation ?s) = [FnRef 0, FnRef 0]"
    by code_simp
  have again:
    "enterFrameCallbacks
       (lottieAnimation
          (run (new_card idleCfg) [LoadReady 100, HoverStart, HoverEnd, HoverStart])) =
       [FnRef 0, FnRef 0]"
    by code_simp
  have "fireEnterFrame 10 ?s = onEnterFrame (onEnterFrame (setFrame 10 ?s))"
    unfolding fireEnterFrame_def twice by (simp add: numeral_2_eq_2)
  with twice again show ?thesis by simp
qed

subsection \<open>The outro lock\<close>

lemma frameAdvanced_locks:
  assumes "isLooping s" "totalFrames s \<noteq> 0" "\<not> isHovering s" "loopStartFrame s \<le> \<lfloor>f\<rfloor>"
  shows "isOutroLocked (frameAdvanced f s)"
  using assms by (simp add: frameAdvanced_def onEnterFrame_def Let_def)

text \<open>
  A frame reported to an outro-locked loop card changes nothing but the timeline, however
  many callbacks are subscribed and whether or not the pointer is over the card.
\<close>

lemma onEnterFrame_locked:
  assumes "isLooping s" "isOutroLocked s"
  shows "isOutroLocked (onEnterFrame s) \<and>
         calls (onEnterFrame s) = calls s \<and>
         isHovering (onEnterFrame s) = isHovering s \<and>
         lottieAnimation (onEnterFrame s) = lottieAnimation s"
  using assms by (simp add: onEnterFrame_def Let_def)

lemma onEnterFrame_pow_locked:
  assumes "isLooping s" "isOutroLocked s"
  shows "isOutroLocked ((onEnterFrame ^^ n) s) \<and>
         calls ((onEnterFrame ^^ n) s) = calls s \<and>
         isHovering ((onEnterFrame ^^ n) s) = isHovering s \<and>
         lottieAnimation ((onEnterFrame ^^ n) s) = lottieAnimation s"
proof (induction n)
  case 0
  then show ?case using assms by simp
next
  case (Suc n)
  have "isLooping ((onEnterFrame ^^ n) s)" using assms(1) by simp
  from onEnterFrame_locked [OF this] Suc show ?case by simp
qed

lemma frameAdvanced_locked:
  assumes "isLooping s" "isOutroLocked s"
  shows "isOutroLocked (frameAdvanced f s) \<and>
         calls (frameAdvanced f s) = calls s \<and>
         isHovering (frameAdvanced f s) = isHovering s \<and>
         lottieAnimation (frameAdvanced f s) = (lottieAnimation s)\<lparr>currentFrame := f\<rparr>"
  using assms by (simp add: frameAdvanced_def onEnterFrame_def Let_def)

lemma fireEnterFrame_locked:
  assumes "isLooping s" "isOutroLocked s"
  shows "isOutroLocked (fireEnterFrame f s) \<and>
         calls (fireEnterFrame f s) = calls s \<and>
         isHovering (fireEnterFrame f s) = isHovering s \<and>
         lottieAnimation (fireEnterFrame f s) = (lottieAnimation s)\<lparr>currentFrame := f\<rparr>"
proof -
  have "isLooping (setFrame f s)" "isOutroLocked (setFrame f s)"
    using assms by simp_all
  from onEnterFrame_pow_locked [OF this] show ?thesis
    by (simp add: fireEnterFrame_def)
qed

lemma onHoverEnd_keeps_lock:
  "animationType s \<noteq> ''playAndHold'' \<Longrightarrow> isOutroLocked (onHoverEnd s) = isOutroLocked s"
  by (simp add: onHoverEnd_def Let_def call_defs)

lemma onHoverStart_keeps_lock:
  assumes "\<not> isPaused (lottieAnimation s)"
    "loopEndFrame s < \<lfloor>currentFrame (lottieAnimation s)\<rfloor>"
  shows "isOutroLocked (onHoverStart s) = isOutroLocked s"
  using assms by (simp add: onHoverStart_def Let_def call_defs engine_defs)

lemma step_keeps_lock:
  assumes "isLooping s" "animationType s = ''loop''" "isOutroLocked s" "keepsLock s e"
  shows "isOutroLocked (step e s)"
proof (cases e)
  case HoverStart
  with assms show ?thesis by (simp add: onHoverStart_keeps_lock)
next
  case HoverEnd
  with assms show ?thesis by (simp add: onHoverEnd_keeps_lock)
next
  case (FrameAdvanced f)
  with assms fireEnterFrame_locked [of s f] show ?thesis by simp
qed (use assms in simp_all)

lemma run_keeps_lock:
  assumes "isLooping s" "animationType s = ''loop''" "isOutroLocked s" "lockKeeping s es"
  shows "isOutroLocked (run s es)"
  using assms
proof (induction es arbitrary: s)
  case Nil
  then show ?case by simp
next
  case (Cons e es)
  have "isOutroLocked (step e s)"
    using Cons.prems by (intro step_keeps_lock) simp_all
  with Cons.prems have "isOutroLocked (run (step e s) es)"
    by (intro Cons.IH) simp_all
  then show ?case by simp
qed

lemma onComplete_unlocks:
  "animationType s \<noteq> ''playAndHold'' \<Longrightarrow> \<not> isOutroLocked (onComplete s)"
  by (simp add: onComplete_def Let_def call_defs)

lemma onHoverStart_unlocks:
  "isLooping s \<Longrightarrow> \<lfloor>currentFrame (lottieAnimation s)\<rfloor> \<le> loopEndFrame s \<Longrightarrow>
   \<not> isOutroLocked (onHoverStart s)"
  by (simp add: onHoverStart_def Let_def call_defs engine_defs)

text \<open>
  Claim C3, amended.  For a loop session whose frame count is not 0: once the pointer has
  left and a frame at or past the loop start is reported, the outro lock is set.  It then
  stays set through every sequence of reported frames, hover ends, and hover starts that
  find the player playing at a frame past the loop end.  After any such sequence, with
  the pointer over the card or not, a further reported frame issues no call and changes
  neither the hover flag nor the handle beyond the frame it reports, whether it is
  delivered to one callback or to all that are subscribed; a completion clears the lock,
  and so does a hover start at a frame not past the loop end.  As stated, for every loop
  session, the claim fails while the frame count is still 0, where \<^verbatim>\<open>onEnterFrame\<close>
  returns at its first line.
\<close>

theorem outro_lock_set_and_kept:
  fixes s :: card_fixed
  assumes "loopKind s" "totalFrames s \<noteq> 0" "\<not> isHovering s" "loopStartFrame s \<le> \<lfloor>f\<rfloor>"
  shows "isOutroLocked (frameAdvanced f s) \<and>
         (\<forall>es. lockKeeping (frameAdvanced f s) es \<longrightarrow>
            isOutroLocked (run (frameAdvanced f s) es) \<and>
            (\<forall>g. isOutroLocked (frameAdvanced g (run (frameAdvanced f s) es)) \<and>
                 calls (frameAdvanced g (run (frameAdvanced f s) es)) =
                   calls (run (frameAdvanced f s) es) \<and>
                 isHovering (frameAdvanced g (run (frameAdvanced f s) es)) =
                   isHovering (run (frameAdvanced f s) es) \<and>
                 lottieAnimation (frameAdvanced g (run (frameAdvanced f s) es)) =
                   (lottieAnimation (run (frameAdvanced f s) es))\<lparr>currentFrame := g\<rparr> \<and>
                 calls (fireEnterFrame g (run (frameAdvanced f s) es)) =
                   calls (run (frameAdvanced f s) es) \<and>
                 lottieAnimation (fireEnterFrame g (run (frameAdvanced f s) es)) =
                   (lottieAnimation (run (frameAdvanced f s) es))\<lparr>currentFrame := g\<rparr>) \<and>
            \<not> isOutroLocked (onComplete (run (frameAdvanced f s) es)) \<and>
            (\<lfloor>currentFrame (lottieAnimation (run (frameAdvanced f s) es))\<rfloor> \<le> loopEndFrame s
               \<longrightarrow> \<not> isOutroLocked (onHoverStart (run (frameAdvanced f s) es))))"
proof -
  let ?s1 = "frameAdvanced f s"
  have kind: "isLooping s" "animationType s = ''loop''"
    using assms(1) by (simp_all add: loopKind_def)
  have locked: "isOutroLocked ?s1"
    using frameAdvanced_locks [OF kind(1) assms(2,3,4)] .
  have kind1: "isLooping ?s1" "animationType ?s1 = ''loop''"
    using kind by simp_all
  have rest:
    "isOutroLocked (run ?s1 es) \<and>
     (\<forall>g. isOutroLocked (frameAdvanced g (run ?s1 es)) \<and>
          calls (frameAdvanced g (run ?s1 es)) = calls (run ?s1 es) \<and>
          isHovering (frameAdvanced g (run ?s1 es)) = isHovering (run ?s1 es) \<and>
          lottieAnimation (frameAdvanced g (run ?s1 es)) =
            (lottieAnimation (run ?s1 es))\<lparr>currentFrame := g\<rparr> \<and>
          calls (fireEnterFrame g (run ?s1 es)) = calls (run ?s1 es) \<and>
          lottieAnimation (fireEnterFrame g (run ?s1 es)) =
            (lottieAnimation (run ?s1 es))\<lparr>currentFrame := g\<rparr>) \<and>
     \<not> isOutroLocked (onComplete (run ?s1 es)) \<and>
     (\<lfloor>currentFrame (lottieAnimation (run ?s1 es))\<rfloor> \<le> loopEndFrame s
        \<longrightarrow> \<not> isOutroLocked (onHoverStart (run ?s1 es)))"
    if keeping: "lockKeeping ?s1 es" for es
  proof -
    let ?t = "run ?s1 es"
    have lt: "isOutroLocked ?t"
      using run_keeps_lock [OF kind1 locked keeping] .
    have kt: "isLooping ?t" "animationType ?t = ''loop''" "loopEndFrame ?t = loopEndFrame s"
      using kind by simp_all
    have frames:
      "isOutroLocked (frameAdvanced g ?t) \<and>
       calls (frameAdvanced g ?t) = calls ?t \<and>
       isHovering (frameAdvanced g ?t) = isHovering ?t \<and>
       lottieAnimation (frameAdvanced g ?t) = (lottieAnimation ?t)\<lparr>currentFrame := g\<rparr> \<and>
       calls (fireEnterFrame g ?t) = calls ?t \<and>
       lottieAnimation (fireEnterFrame g ?t) = (lottieAnimation ?t)\<lparr>currentFrame := g\<rparr>"
      for g
      using frameAdvanced_locked [OF kt(1) lt, of g] fireEnterFrame_locked [OF kt(1) lt, of g]
      by simp
    have complete: "\<not> isOutroLocked (onComplete ?t)"
      using kt(2) by (intro onComplete_unlocks) simp
    have hover: "\<not> isOutroLocked (onHoverStart ?t)"
      if "\<lfloor>currentFrame (lottieAnimation ?t)\<rfloor> \<le> loopEndFrame s"
      using that kt by (intro onHoverStart_unlocks) simp_all
    show ?thesis
      using lt frames complete hover by blast
  qed
  show ?thesis
    using locked rest by blast
qed

text \<open>
  The shapes clip (loop 24 to 71, 100 frames), hovered at frame 10 and left: frame 30 sets
  the lock.  Frame 75, a hover end, frame 76, a hover start there and frame 80 keep it;
  the pointer is then over the card, and frame 95 issues no call; a completion clears the
  lock.  After frame 50 alone, a hover start clears it.
\<close>

theorem outro_lock_set_and_kept_witness:
  "loopKind (run (new_card shapesCfg) [LoadReady 100, HoverStart, FrameAdvanced 10, HoverEnd]) \<and>
   totalFrames (run (new_card shapesCfg) [LoadReady 100, HoverStart, FrameAdvanced 10, HoverEnd])
     \<noteq> 0 \<and>
   \<not> isHovering (run (new_card shapesCfg) [LoadReady 100, HoverStart, FrameAdvanced 10, HoverEnd]) \<and>
   isOutroLocked (frameAdvanced 30
     (run (new_card shapesCfg) [LoadReady 100, HoverStart, FrameAdvanced 10, HoverEnd])) \<and>
   lockKeeping (frameAdvanced 30
     (run (new_card shapesCfg) [LoadReady 100, HoverStart, FrameAdvanced 10, HoverEnd]))
     [FrameAdvanced 75, HoverEnd, FrameAdvanced 76, HoverStart, FrameAdvanced 80] \<and>
   isHovering (run (frameAdvanced 30
     (run (new_card shapesCfg) [LoadReady 100, HoverStart, FrameAdvanced 10, HoverEnd]))
     [FrameAdvanced 75, HoverEnd, FrameAdvanced 76, HoverStart, FrameAdvanced 80]) \<and>
   isOutroLocked (run (frameAdvanced 30
     (run (new_card shapesCfg) [LoadReady 100, HoverStart, FrameAdvanced 10, HoverEnd]))
     [FrameAdvanced 75, HoverEnd, FrameAdvanced 76, HoverStart, FrameAdvanced 80]) \<and>
   calls (frameAdvanced 95 (run (frameAdvanced 30
     (run (new_card shapesCfg) [LoadReady 100, HoverStart, FrameAdvanced 10, HoverEnd]))
     [FrameAdvanced 75, HoverEnd, FrameAdvanced 76, HoverStart, FrameAdvanced 80])) =
   calls (run (frameAdvanced 30
     (run (new_card shapesCfg) [LoadReady 100, HoverStart, FrameAdvanced 10, HoverEnd]))
     [FrameAdvanced 75, HoverEnd, FrameAdvanced 76, HoverStart, FrameAdvanced 80]) \<and>
   \<not> isOutroLocked (onComplete (run (frameAdvanced 30
     (run (new_card shapesCfg) [LoadReady 100, HoverStart, FrameAdvanced 10, HoverEnd]))
     [FrameAdvanced 75, HoverEnd, FrameAdvanced 76, HoverStart, FrameAdvanced 80])) \<and>
   \<not> isOutroLocked (onHoverStart (run (frameAdvanced 30
     (run (new_card shapesCfg) [LoadReady 100, HoverStart, FrameAdvanced 10, HoverEnd]))
     [FrameAdvanced 50]))"
proof -
  let ?s = "run (new_card shapesCfg) [LoadReady 100, HoverStart, FrameAdvanced 10, HoverEnd]"
  let ?es = "[FrameAdvanced 75, HoverEnd, FrameAdvanced 76, HoverStart, FrameAdvanced 80]"
  have a: "loopKind ?s" by code_simp
  have b: "totalFrames ?s \<noteq> 0" by code_simp
  have c: "\<not> isHovering ?s" by code_simp
  have d: "loopStartFrame ?s \<le> \<lfloor>30::real\<rfloor>" by code_simp
  have k: "lockKeeping (frameAdvanced 30 ?s) ?es" by code_simp
  have h: "isHovering (run (frameAdvanced 30 ?s) ?es)" by code_simp
  have k': "lockKeeping (frameAdvanced 30 ?s) [FrameAdvanced 50]" by code_simp
  have e: "\<lfloor>currentFrame (lottieAnimation (run (frameAdvanced 30 ?s) [FrameAdvanced 50]))\<rfloor>
             \<le> loopEndFrame ?s" by code_simp
  note inst = outro_lock_set_and_kept [OF a b c d]
  from inst have first: "isOutroLocked (frameAdvanced 30 ?s)" by blast
  from inst k have long:
    "isOutroLocked (run (frameAdvanced 30 ?s) ?es)"
    "calls (frameAdvanced 95 (run (frameAdvanced 30 ?s) ?es)) =
       calls (run (frameAdvanced 30 ?s) ?es)"
    "\<not> isOutroLocked (onComplete (run (frameAdvanced 30 ?s) ?es))"
    by blast+
  from inst k' e have short:
    "\<not> isOutroLocked (onHoverStart (run (frameAdvanced 30 ?s) [FrameAdvanced 50]))"
    by blast
  from a b c first k h long short show ?thesis by blast
qed

text \<open>
  A loop from frame 0, hovered and left before the clip has loaded: the frame count is
  still 0, and frame 0, which is at the loop start, does not set the lock.
\<close>

theorem outro_lock_not_set_before_load:
  "loopKind (run (new_card loopFromZeroCfg) [HoverStart, HoverEnd]) \<and>
   \<not> isHovering (run (new_card loopFromZeroCfg) [HoverStart, HoverEnd]) \<and>
   loopStartFrame (run (new_card loopFromZeroCfg) [HoverStart, HoverEnd]) \<le> \<lfloor>0::real\<rfloor> \<and>
   \<not> isOutroLocked (frameAdvanced 0 (run (new_card loopFromZeroCfg) [HoverStart, HoverEnd]))"
  by code_simp

subsection \<open>Jumping back to the loop start\<close>

text \<open>
  Claim C4, amended.  For a loop session whose frame count is not 0, hovered and not
  outro-locked, a reported frame at or past the loop end issues exactly one call, a seek
  to the loop start that keeps playing, and the handle's frame is then the loop start.  As
  stated, for every such session, the claim fails while the frame count is still 0.
\<close>

theorem hovering_past_loop_end_seeks_loop_start:
  assumes "loopKind s" "totalFrames s \<noteq> 0" "isHovering s" "\<not> isOutroLocked s"
    "loopEndFrame s \<le> \<lfloor>f\<rfloor>"
  shows "calls (frameAdvanced f s) = calls s @ [GoToAndPlay (loopStartFrame s)] \<and>
         currentFrame (lottieAnimation (frameAdvanced f s)) = real_of_int (loopStartFrame s) \<and>
         \<lfloor>currentFrame (lottieAnimation (frameAdvanced f s))\<rfloor> = loopStartFrame s \<and>
         \<not> isPaused (lottieAnimation (frameAdvanced f s)) \<and>
         isHovering (frameAdvanced f s) \<and>
         \<not> isOutroLocked (frameAdvanced f s)"
  using assms
  by (simp add: loopKind_def frameAdvanced_def onEnterFrame_def Let_def call_defs engine_defs)

theorem hovering_past_loop_end_seeks_loop_start_witness:
  "loopKind (run (new_card shapesCfg) [LoadReady 100, HoverStart]) \<and>
   totalFrames (run (new_card shapesCfg) [LoadReady 100, HoverStart]) \<noteq> 0 \<and>
   isHovering (run (new_card shapesCfg) [LoadReady 100, HoverStart]) \<and>
   \<not> isOutroLocked (run (new_card shapesCfg) [LoadReady 100, HoverStart]) \<and>
   calls (frameAdvanced 71 (run (new_card shapesCfg) [LoadReady 100, HoverStart])) =
     calls (run (new_card shapesCfg) [LoadReady 100, HoverStart]) @ [GoToAndPlay 24] \<and>
   \<lfloor>currentFrame (lottieAnimation
       (frameAdvanced 71 (run (new_card shapesCfg) [LoadReady 100, HoverStart])))\<rfloor> = 24"
proof -
  let ?s = "run (new_card shapesCfg) [LoadReady 100, HoverStart]"
  have a: "loopKind ?s" by code_simp
  have b: "totalFrames ?s \<noteq> 0" by code_simp
  have c: "isHovering ?s" by code_simp
  have d: "\<not> isOutroLocked ?s" by code_simp
  have e: "loopEndFrame ?s \<le> \<lfloor>71::real\<rfloor>" by code_simp
  have g: "loopStartFrame ?s = 24" by code_simp
  from hovering_past_loop_end_seeks_loop_start [OF a b c d e] a b c d g show ?thesis by simp
qed

text \<open>
  A loop kind with no \<^verbatim>\<open>loopFrames\<close> (bounds 0 and 0), hovered before the clip has loaded:
  frame 0 is at the loop end, and no call is issued.
\<close>

theorem no_seek_before_load:
  "loopKind (run (new_card loopNoBoundsCfg) [HoverStart]) \<and>
   isHovering (run (new_card loopNoBoundsCfg) [HoverStart]) \<and>
   \<not> isOutroLocked (run (new_card loopNoBoundsCfg) [HoverStart]) \<and>
   loopEndFrame (run (new_card loopNoBoundsCfg) [HoverStart]) \<le> \<lfloor>0::real\<rfloor> \<and>
   calls (frameAdvanced 0 (run (new_card loopNoBoundsCfg) [HoverStart])) =
     calls (run (new_card loopNoBoundsCfg) [HoverStart])"
  by code_simp

subsection \<open>Hover end before the hold point\<close>

lemma resetTimeline_ui_after_stop:
  "ui (resetTimeline (goToAndStop 0 (removeEnterFrame r
         (s\<lparr>isHovering := False, isOutroLocked := False\<rparr>)))) = ui (resetTimeline s)"
  by (simp add: resetTimeline_def updateTimelineUI_def Let_def call_defs)

lemma resetTimeline_frameCounter: "frameCounter (ui (resetTimeline s)) = Some 0"
  by (simp add: resetTimeline_def updateTimelineUI_def Let_def)

text \<open>
  Claim C5, amended.  In the first revision, a freeze clip that loses the pointer before
  it has frozen issues no call: the handle is left as it is and only the hover flag and
  the playing class are cleared, so playback is not cut short.  In the second and third
  revisions a play-and-hold clip is reset on every hover end, held or not: the card asks
  for the removal of a frame callback, stops the clip at frame 0, and resets the timeline,
  whose frame counter then reads 0.  In the third revision the removal names the bound
  callback, which is no longer subscribed afterwards; in the second it names a function
  object made for the call, and the callbacks subscribed under other references stay.
  As stated, for every play-and-hold session, the claim fails in the second and third
  revisions.
\<close>

theorem hoverEnd_before_hold:
  "(animationType h = ''freeze'' \<and> \<not> isFrozen h \<longrightarrow>
      onHoverEnd_hex h = h\<lparr>isHovering := False, playingClass := False\<rparr> \<and>
      calls (onHoverEnd_hex h) = calls h \<and>
      lottieAnimation (onHoverEnd_hex h) = lottieAnimation h) \<and>
   (animationType s = ''playAndHold'' \<longrightarrow>
      calls (onHoverEnd s) =
        calls s @ [RemoveEnterFrame (boundOnEnterFrame s), GoToAndStop 0] \<and>
      isPaused (lottieAnimation (onHoverEnd s)) \<and>
      currentFrame (lottieAnimation (onHoverEnd s)) = 0 \<and>
      boundOnEnterFrame s \<notin> set (enterFrameCallbacks (lottieAnimation (onHoverEnd s))) \<and>
      ui (onHoverEnd s) = ui (resetTimeline s) \<and>
      frameCounter (ui (onHoverEnd s)) = Some 0 \<and>
      \<not> isHovering (onHoverEnd s) \<and>
      \<not> isOutroLocked (onHoverEnd s) \<and>
      \<not> playingClass (onHoverEnd s)) \<and>
   (animationType m = ''playAndHold'' \<longrightarrow>
      calls (onHoverEnd_intermediate m) =
        calls m @ [RemoveEnterFrame (FnRef (nextRef m)), GoToAndStop 0] \<and>
      isPaused (lottieAnimation (onHoverEnd_intermediate m)) \<and>
      currentFrame (lottieAnimation (onHoverEnd_intermediate m)) = 0 \<and>
      enterFrameCallbacks (lottieAnimation (onHoverEnd_intermediate m)) =
        filter (\<lambda>c. c \<noteq> FnRef (nextRef m)) (enterFrameCallbacks (lottieAnimation m)) \<and>
      ui (onHoverEnd_intermediate m) = ui (resetTimeline m) \<and>
      frameCounter (ui (onHoverEnd_intermediate m)) = Some 0 \<and>
      \<not> isHovering (onHoverEnd_intermediate m) \<and>
      \<not> isOutroLocked (onHoverEnd_intermediate m) \<and>
      \<not> playingClass (onHoverEnd_intermediate m))"
proof -
  have hex:
    "onHoverEnd_hex h = h\<lparr>isHovering := False, playingClass := False\<rparr> \<and>
     calls (onHoverEnd_hex h) = calls h \<and>
     lottieAnimation (onHoverEnd_hex h) = lottieAnimation h"
    if "animationType h = ''freeze''" "\<not> isFrozen h"
    using that by (simp add: onHoverEnd_hex_def)
  have fixed:
    "calls (onHoverEnd s) =
       calls s @ [RemoveEnterFrame (boundOnEnterFrame s), GoToAndStop 0] \<and>
     isPaused (lottieAnimation (onHoverEnd s)) \<and>
     currentFrame (lottieAnimation (onHoverEnd s)) = 0 \<and>
     boundOnEnterFrame s \<notin> set (enterFrameCallbacks (lottieAnimation (onHoverEnd s))) \<and>
     ui (onHoverEnd s) = ui (resetTimeline s) \<and>
     frameCounter (ui (onHoverEnd s)) = Some 0 \<and>
     \<not> isHovering (onHoverEnd s) \<and>
     \<not> isOutroLocked (onHoverEnd s) \<and>
     \<not> playingClass (onHoverEnd s)"
    if "animationType s = ''playAndHold''"
  proof -
    have "ui (onHoverEnd s) = ui (resetTimeline s)"
      using that resetTimeline_ui_after_stop [of "boundOnEnterFrame s" s]
      by (simp add: onHoverEnd_def)
    then show ?thesis
      using that
      by (simp add: resetTimeline_frameCounter)
         (simp add: onHoverEnd_def Let_def call_defs engine_defs)
  qed
  have second:
    "calls (onHoverEnd_intermediate m) =
       calls m @ [RemoveEnterFrame (FnRef (nextRef m)), GoToAndStop 0] \<and>
     isPaused (lottieAnimation (onHoverEnd_intermediate m)) \<and>
     currentFrame (lottieAnimation (onHoverEnd_intermediate m)) = 0 \<and>
     enterFrameCallbacks (lottieAnimation (onHoverEnd_intermediate m)) =
       filter (\<lambda>c. c \<noteq> FnRef (nextRef m)) (enterFrameCallbacks (lottieAnimation m)) \<and>
     ui (onHoverEnd_intermediate m) = ui (resetTimeline m) \<and>
     frameCounter (ui (onHoverEnd_intermediate m)) = Some 0 \<and>
     \<not> isHovering (onHoverEnd_intermediate m) \<and>
     \<not> isOutroLocked (onHoverEnd_intermediate m) \<and>
     \<not> playingClass (onHoverEnd_intermediate m)"
    if "animationType m = ''playAndHold''"
  proof -
    have "ui (onHoverEnd_intermediate m) = ui (resetTimeline m)"
      using that
      by (simp add: onHoverEnd_intermediate_def bindOnEnterFrame_def resetTimeline_def
            updateTimelineUI_def Let_def call_defs)
    then show ?thesis
      using that
      by (simp add: resetTimeline_frameCounter)
         (simp add: onHoverEnd_intermediate_def bindOnEnterFrame_def Let_def call_defs
            engine_defs)
  qed
  show ?thesis
    using hex fixed second by blast
qed

text \<open>
  The freeze card at frame 10; the build-in clip of the third revision at frame 10; and
  the build-in clip of the second revision at frame 10, whose callback is still
  subscribed after the hover end.
\<close>

theorem hoverEnd_before_hold_witness:
  "(animationType freezeCard = ''freeze'' \<and> \<not> isFrozen freezeCard \<and>
    calls (onHoverEnd_hex freezeCard) = calls freezeCard \<and>
    lottieAnimation (onHoverEnd_hex freezeCard) = lottieAnimation freezeCard) \<and>
   (animationType (run (new_card buildInCfg) [LoadReady 40, HoverStart, FrameAdvanced 10]) =
      ''playAndHold'' \<and>
    isPaused (lottieAnimation
      (onHoverEnd (run (new_card buildInCfg) [LoadReady 40, HoverStart, FrameAdvanced 10]))) \<and>
    frameCounter (ui
      (onHoverEnd (run (new_card buildInCfg) [LoadReady 40, HoverStart, FrameAdvanced 10])))
      = Some 0) \<and>
   (animationType (run_intermediate (new_card_intermediate buildInCfg)
        [LoadReady 40, HoverStart, FrameAdvanced 10]) = ''playAndHold'' \<and>
    isPaused (lottieAnimation (onHoverEnd_intermediate
      (run_intermediate (new_card_intermediate buildInCfg)
        [LoadReady 40, HoverStart, FrameAdvanced 10]))) \<and>
    enterFrameCallbacks (lottieAnimation (onHoverEnd_intermediate
      (run_intermediate (new_card_intermediate buildInCfg)
        [LoadReady 40, HoverStart, FrameAdvanced 10]))) = [FnRef 0])"
proof -
  let ?s = "run (new_card buildInCfg) [LoadReady 40, HoverStart, FrameAdvanced 10]"
  let ?m = "run_intermediate (new_card_intermediate buildInCfg)
              [LoadReady 40, HoverStart, FrameAdvanced 10]"
  have a: "animationType freezeCard = ''freeze''" by (simp add: freezeCard_def)
  have b: "\<not> isFrozen freezeCard" by (simp add: freezeCard_def)
  have c: "animationType ?s = ''playAndHold''" by code_simp
  have d: "animationType ?m = ''playAndHold''" by code_simp
  have e: "nextRef ?m = 1" by code_simp
  have g: "enterFrameCallbacks (lottieAnimation ?m) = [FnRef 0]" by code_simp
  note inst = hoverEnd_before_hold [of freezeCard ?s ?m]
  from inst a b have hex:
    "calls (onHoverEnd_hex freezeCard) = calls freezeCard"
    "lottieAnimation (onHoverEnd_hex freezeCard) = lottieAnimation freezeCard"
    by blast+
  from inst c have fixed:
    "isPaused (lottieAnimation (onHoverEnd ?s))"
    "frameCounter (ui (onHoverEnd ?s)) = Some 0"
    by blast+
  from inst d have second:
    "isPaused (lottieAnimation (onHoverEnd_intermediate ?m))"
    "enterFrameCallbacks (lottieAnimation (onHoverEnd_intermediate ?m)) =
       filter (\<lambda>c. c \<noteq> FnRef (nextRef ?m)) (enterFrameCallbacks (lottieAnimation ?m))"
    by blast+
  have "filter (\<lambda>c. c \<noteq> FnRef 1) [FnRef 0] = [FnRef 0]" by simp
  with second(2) [unfolded e g]
  have kept: "enterFrameCallbacks (lottieAnimation (onHoverEnd_intermediate ?m)) = [FnRef 0]"
    by (rule trans)
  from a b hex c fixed d second(1) kept show ?thesis by blast
qed

text \<open>
  The build-in clip of the third revision (40 frames), hovered and playing at frame 10:
  the hover end removes the callback and stops the clip at frame 0.
\<close>

theorem playAndHold_hoverEnd_cuts_playback:
  "animationType (run (new_card buildInCfg) [LoadReady 40, HoverStart, FrameAdvanced 10]) =
     ''playAndHold'' \<and>
   \<not> isPaused (lottieAnimation
        (run (new_card buildInCfg) [LoadReady 40, HoverStart, FrameAdvanced 10])) \<and>
   \<lfloor>currentFrame (lottieAnimation
        (run (new_card buildInCfg) [LoadReady 40, HoverStart, FrameAdvanced 10]))\<rfloor>
     < totalFrames (run (new_card buildInCfg) [LoadReady 40, HoverStart, FrameAdvanced 10]) \<and>
   calls (onHoverEnd (run (new_card buildInCfg) [LoadReady 40, HoverStart, FrameAdvanced 10])) =
     calls (run (new_card buildInCfg) [LoadReady 40, HoverStart, FrameAdvanced 10])
       @ [RemoveEnterFrame (FnRef 0), GoToAndStop 0] \<and>
   isPaused (lottieAnimation
        (onHoverEnd (run (new_card buildInCfg) [LoadReady 40, HoverStart, FrameAdvanced 10])))"
  by code_simp

subsection \<open>Loop bounds at construction\<close>

text \<open>
  Claim C6, amended.  The constructor checks nothing: for a loop kind it takes the two
  bounds as the configuration gives them, in either order and of either sign, and takes
  0 and 0 when the configuration gives none; construction has no failing path, and the
  bounds reach the frame logic unchanged through every event.  As stated, that malformed
  bounds fail at construction, the claim fails.
\<close>

theorem loop_bounds_taken_as_given:
  assumes "declaredType d = Some ''loop''"
  shows "loopKind (run (new_card d) es) \<and>
         (loopStartFrame (run (new_card d) es), loopEndFrame (run (new_card d) es)) =
           (case loopFrames d of None \<Rightarrow> (0, 0) | Some b \<Rightarrow> b)"
  using assms
  by (simp add: loopKind_def new_card_def parseAnimationProps_def split: option.splits)

theorem loop_bounds_taken_as_given_witness:
  "declaredType reversedCfg = Some ''loop'' \<and>
   loopKind (run (new_card reversedCfg) [LoadReady 100, HoverStart]) \<and>
   loopStartFrame (run (new_card reversedCfg) [LoadReady 100, HoverStart]) = 71 \<and>
   loopEndFrame (run (new_card reversedCfg) [LoadReady 100, HoverStart]) = 24"
proof -
  have a: "declaredType reversedCfg = Some ''loop''" by (simp add: reversedCfg_def)
  have b: "loopFrames reversedCfg = Some (71, 24)" by (simp add: reversedCfg_def)
  from loop_bounds_taken_as_given [OF a, of "[LoadReady 100, HoverStart]"] a b
  show ?thesis by simp
qed

text \<open>
  Bounds 71 and 24 are accepted, and the frame logic runs on them: hovered, the card
  answers frame 30 with a seek to frame 71.
\<close>

theorem reversed_bounds_reach_frame_logic:
  "loopStartFrame (new_card reversedCfg) = 71 \<and>
   loopEndFrame (new_card reversedCfg) = 24 \<and>
   last (calls (run (new_card reversedCfg) [LoadReady 100, HoverStart, FrameAdvanced 30])) =
     GoToAndPlay 71"
  by code_simp

subsection \<open>A frame count of 0\<close>

lemma onEnterFrame_not_ready: "totalFrames s = 0 \<Longrightarrow> onEnterFrame s = s"
  by (simp add: onEnterFrame_def)

lemma onEnterFrame_pow_not_ready: "totalFrames s = 0 \<Longrightarrow> (onEnterFrame ^^ n) s = s"
  by (induction n) (simp_all add: onEnterFrame_not_ready)

text \<open>
  Claim C7, amended.  While the frame count is 0, a frame event changes nothing at all:
  \<^verbatim>\<open>onEnterFrame\<close> returns the card as it is, however many callbacks are subscribed.  A
  timeline update writes the frame counter text and nothing else; it issues no call and
  changes no flag, no bar and no label.  Both functions are total, so nothing is raised.
  As stated, with no state change at all, the claim fails for the timeline update.
\<close>

theorem not_ready_guard:
  assumes "totalFrames s = 0"
  shows "onEnterFrame s = s \<and>
         frameAdvanced f s = setFrame f s \<and>
         fireEnterFrame f s = setFrame f s \<and>
         updateTimelineUI cf p s = s\<lparr>ui := (ui s)\<lparr>frameCounter := Some cf\<rparr>\<rparr>"
proof -
  have "totalFrames (setFrame f s) = 0"
    using assms by (simp add: setFrame_def)
  then show ?thesis
    using assms
    by (simp add: onEnterFrame_not_ready onEnterFrame_pow_not_ready frameAdvanced_def
          fireEnterFrame_def updateTimelineUI_def)
qed

theorem not_ready_guard_witness:
  "totalFrames (new_card shapesCfg) = 0 \<and>
   onEnterFrame (new_card shapesCfg) = new_card shapesCfg \<and>
   updateTimelineUI 5 True (new_card shapesCfg) =
     (new_card shapesCfg)\<lparr>ui := (ui (new_card shapesCfg))\<lparr>frameCounter := Some 5\<rparr>\<rparr>"
proof -
  have h: "totalFrames (new_card shapesCfg) = 0" by code_simp
  from not_ready_guard [OF h] h show ?thesis by simp
qed

text \<open>On a card that has not loaded, a timeline update changes the card.\<close>

theorem timeline_update_writes_frame_counter:
  "totalFrames (new_card shapesCfg) = 0 \<and>
   updateTimelineUI 5 True (new_card shapesCfg) \<noteq> new_card shapesCfg"
proof -
  have h: "totalFrames (new_card shapesCfg) = 0" by code_simp
  have a: "frameCounter (ui (updateTimelineUI 5 True (new_card shapesCfg))) = Some 5"
    by code_simp
  have b: "frameCounter (ui (new_card shapesCfg)) = None" by code_simp
  from a b have "updateTimelineUI 5 True (new_card shapesCfg) \<noteq> new_card shapesCfg"
    by auto
  with h show ?thesis by simp
qed

subsection \<open>Clamping of the segment ratios\<close>

text \<open>
  A clamped percentage lies between 0 and 100 unless it is not a number, which is the
  case exactly when a zero is divided by a zero; and one frame past the loop end of a clip
  that ends there, the outro bar is at 100.
\<close>

lemma js_div_NaN_iff: "js_div a b = NaN \<longleftrightarrow> a = 0 \<and> b = 0"
  by (simp add: js_div_def)

lemma clampPercent_in_range:
  "clampPercent (js_times100 (js_div a b)) = NaN \<or>
   inUnitPercent (clampPercent (js_times100 (js_div a b)))"
  by (simp add: js_div_def clampPercent_def)

lemma outro_ratio_one_past_loop_end:
  assumes "isLooping s" "totalFrames s = loopEndFrame s + 1" "totalFrames s \<noteq> 0"
  shows "progressOutro (ui (updateTimelineUI (loopEndFrame s + 1) p s)) = Some (Num 100)"
  using assms by (simp add: updateTimelineUI_def Let_def js_div_def clampPercent_def)

text \<open>
  Claim C8.  Each of the three segment ratios is to be clamped for every frame.  The code
  clamps every quotient but the quotient of two zeros: for a loop that starts at frame 0,
  the timeline reset that follows loading computes the intro ratio at frame 0 as 0 / 0,
  and the width written to the intro bar is not a number.
\<close>

theorem intro_ratio_not_a_number:
  "progressIntro (ui (run (new_card loopFromZeroCfg) [LoadReady 100])) = Some NaN \<and>
   \<not> inUnitPercent NaN"
  by code_simp

subsection \<open>The active segment\<close>

text \<open>
  Claim C9, amended.  For a loop timeline whose frame count is not 0, an update with the
  playing flag set marks exactly one segment and one label active: the intro below the
  loop start, else the loop up to the loop end, else the outro; with the flag clear it
  marks none.  As stated, the claim fails while the frame count is 0, where nothing is
  marked, and for bounds in the wrong order, where a frame past the loop end but below
  the loop start is marked intro.
\<close>

theorem active_segment_selection:
  assumes "isLooping s" "totalFrames s \<noteq> 0"
  shows "activeSegments (ui (updateTimelineUI cf p s)) =
           (if \<not> p then {}
            else if cf < loopStartFrame s then {Intro}
            else if cf \<le> loopEndFrame s then {LoopSeg}
            else {Outro}) \<and>
         activeLabels (ui (updateTimelineUI cf p s)) =
           (if \<not> p then {}
            else if cf < loopStartFrame s then {Intro}
            else if cf \<le> loopEndFrame s then {LoopSeg}
            else {Outro})"
  using assms by (simp add: updateTimelineUI_def Let_def)

theorem active_segment_selection_witness:
  "isLooping (run (new_card shapesCfg) [LoadReady 100]) \<and>
   totalFrames (run (new_card shapesCfg) [LoadReady 100]) \<noteq> 0 \<and>
   activeSegments (ui (updateTimelineUI 30 True (run (new_card shapesCfg) [LoadReady 100])))
     = {LoopSeg}"
proof -
  let ?s = "run (new_card shapesCfg) [LoadReady 100]"
  have a: "isLooping ?s" by code_simp
  have b: "totalFrames ?s \<noteq> 0" by code_simp
  have c: "loopStartFrame ?s = 24" by code_simp
  have d: "loopEndFrame ?s = 71" by code_simp
  from active_segment_selection [OF a b, of 30 True] a b c d show ?thesis by simp
qed

text \<open>
  The shapes clip hovered before it has loaded: playing, and no segment active.  Bounds 71
  and 24 on a loaded clip: frame 50 is past the loop end, and the intro is active.
\<close>

theorem active_segment_counterexample:
  "(isLooping (run (new_card shapesCfg) [HoverStart]) \<and>
    activeSegments (ui (updateTimelineUI 0 True (run (new_card shapesCfg) [HoverStart]))) = {}) \<and>
   (isLooping (run (new_card reversedCfg) [LoadReady 100]) \<and>
    loopEndFrame (run (new_card reversedCfg) [LoadReady 100]) < 50 \<and>
    activeSegments (ui (updateTimelineUI 50 True (run (new_card reversedCfg) [LoadReady 100])))
      = {Intro})"
  by code_simp

subsection \<open>Hover start on a paused player\<close>

text \<open>
  Claim C10.  In the third revision, whatever the kind of the clip, a hover start that
  finds the player paused clears the outro lock and restarts playback from frame 0: the
  card subscribes its callback, seeks to frame 0 playing, and calls play.  A play-and-hold
  clip holding at its last frame is such a paused player, so its hold is lost.
\<close>

theorem hoverStart_while_paused_restarts:
  assumes "isPaused (lottieAnimation s)"
  shows "\<not> isOutroLocked (onHoverStart s) \<and>
         calls (onHoverStart s) =
           calls s @ [AddEnterFrame (boundOnEnterFrame s), GoToAndPlay 0, Play] \<and>
         currentFrame (lottieAnimation (onHoverStart s)) = 0 \<and>
         \<not> isPaused (lottieAnimation (onHoverStart s)) \<and>
         isHovering (onHoverStart s)"
  using assms
  by (simp add: onHoverStart_def Let_def call_defs engine_defs)

text \<open>The build-in clip, held after completing under the pointer, restarts from frame 0.\<close>

theorem hoverStart_while_paused_restarts_witness:
  "animationType (run (new_card buildInCfg)
       [LoadReady 40, HoverStart, FrameAdvanced 39, PlaybackComplete]) = ''playAndHold'' \<and>
   isPaused (lottieAnimation (run (new_card buildInCfg)
       [LoadReady 40, HoverStart, FrameAdvanced 39, PlaybackComplete])) \<and>
   currentFrame (lottieAnimation (onHoverStart (run (new_card buildInCfg)
       [LoadReady 40, HoverStart, FrameAdvanced 39, PlaybackComplete]))) = 0 \<and>
   \<not> isPaused (lottieAnimation (onHoverStart (run (new_card buildInCfg)
       [LoadReady 40, HoverStart, FrameAdvanced 39, PlaybackComplete])))"
proof -
  let ?s = "run (new_card buildInCfg)
       [LoadReady 40, HoverStart, FrameAdvanced 39, PlaybackComplete]"
  have kind: "animationType ?s = ''playAndHold''" by code_simp
  have held: "isPaused (lottieAnimation ?s)" by code_simp
  from hoverStart_while_paused_restarts [OF held] kind held show ?thesis by simp
qed

end
